theory Spec2Isabelle
  imports Main "HOL-Library.Word"
begin

section \<open>Values shared by the resolver and the parser\<close>

text \<open>
  A Node \<open>Buffer\<close> is a sequence of bytes. JavaScript strings are modelled as
  HOL strings, a character beyond ASCII as the bytes of its UTF-8 form.
\<close>

type_synonym buffer = "8 word list"

text \<open>
  Modelled from the spec: the error classes of \<open>lib/util/errors\<close>, which is not among
  the source files: \<open>ResolverError { cause, source }\<close>, \<open>ParserError\<close>,
  \<open>MissingPointerError\<close>, \<open>InvalidPointerError\<close> and \<open>ReferenceError\<close>. Each is a
  constructor applied to the arguments of the \<open>new\<close> expression that builds it; the
  second argument of \<open>ResolverError\<close> is \<open>None\<close> where the source passes none. The
  pointer and reference errors carry the pointer they are about.

  \<open>Thrown\<close> is an error raised by Node or by a library, with its message. \<open>ono\<close> is
  called in two shapes, \<open>ono({ status: s }, message)\<close> and \<open>ono(err, message)\<close>; both
  are kept as terms, so the arguments the source passes can be read off the result.
\<close>

datatype error =
    Thrown string
  | OnoProps nat string
  | OnoWrap error string
  | ResolverError error "string option"
  | ParserError string string
  | MissingPointerError string
  | InvalidPointerError string
  | ReferenceError string

text \<open>
  The JavaScript values a file's \<open>data\<close> can hold, as far as the parser tells them
  apart: a \<open>Buffer\<close>, a string, or a value of another type. \<open>JUndefined\<close> and
  \<open>JNaN\<close> are JavaScript values that are not JSON values.
\<close>

datatype js_value =
    JUndefined
  | JNull
  | JBool bool
  | JNumber int
  | JNaN
  | JString string
  | JBuffer buffer
  | JArray "js_value list"
  | JObject "(string \<times> js_value) list"

text \<open>The file descriptor handed to resolvers and parsers.\<close>

record file_info =
  url :: string
  extension :: string
  data :: js_value

subsection \<open>Template literals\<close>

text \<open>
  \<open>`${n}`\<close> for a status code: the decimal digits of a natural number.
\<close>

definition digit :: "nat \<Rightarrow> char" where
  "digit d = ''0123456789'' ! d"

function decimal :: "nat \<Rightarrow> string" where
  "decimal n = (if n < 10 then [digit n] else decimal (n div 10) @ [digit (n mod 10)])"
  by pat_completeness auto
termination
  by (relation "measure id") auto

declare decimal.simps [simp del]

text \<open>\<open>Array.prototype.join\<close> on an array of strings.\<close>

fun join :: "string \<Rightarrow> string list \<Rightarrow> string" where
  "join sep [] = []"
| "join sep [x] = x"
| "join sep (x # y # ys) = x @ sep @ join sep (y # ys)"

text \<open>JavaScript truthiness of a value that is \<open>undefined\<close> or a string.\<close>

fun truthy :: "string option \<Rightarrow> bool" where
  "truthy None = False"
| "truthy (Some s) = (s \<noteq> [])"

section \<open>The HTTP resolver (\<open>lib/resolvers/http.js\<close>)\<close>

text \<open>
  A parsed \<open>Url\<close> object, with the fields \<open>get\<close> and \<open>download\<close> read.
\<close>

record Url =
  href :: string
  protocol :: "string option"
  hostname :: "string option"
  port :: "string option"
  path :: "string option"
  auth :: "string option"

text \<open>\<open>download\<close> takes a string or an already parsed \<open>Url\<close>.\<close>

datatype url_arg = UrlStr string | UrlObj Url

text \<open>
  The resolver object itself (\<open>this\<close> in \<open>read\<close>), passed on as \<open>httpOptions\<close>.
  \<open>redirects\<close> is a number; the model takes an integer, of either sign.
\<close>

record http_options =
  order :: nat
  headers :: "(string \<times> string) list option"
  timeout :: nat
  redirects :: int
  withCredentials :: bool

definition http_resolver :: http_options where
  "http_resolver = \<lparr> order = 200, headers = None, timeout = 5000, redirects = 5,
     withCredentials = False \<rparr>"

text \<open>The options object \<open>get\<close> hands to \<open>protocol.get\<close>, with the timeout it sets.\<close>

record request =
  req_hostname :: "string option"
  req_port :: "string option"
  req_path :: "string option"
  req_auth :: "string option"
  req_protocol :: "string option"
  req_headers :: "(string \<times> string) list"
  req_withCredentials :: bool
  req_timeout :: nat

text \<open>
  What Node reports for one request: an \<open>error\<close> event on the request, or a
  \<open>response\<close> event followed by \<open>data\<close> events and then either \<open>end\<close> or an
  \<open>error\<close> event on the response.
\<close>

datatype ending = End | ResponseError error

datatype exchange =
    RequestError error
  | Response nat "(string \<times> string) list" "buffer list" ending

text \<open>
  The response object \<open>get\<close> resolves with; \<open>body\<close> is the property \<open>get\<close> adds to
  it.
\<close>

record response =
  statusCode :: nat
  res_headers :: "(string \<times> string) list"
  body :: "buffer option"

text \<open>
  What the module takes from outside: \<open>url.parse\<close> and \<open>url.resolve\<close> of
  \<open>lib/util/url\<close>, the \<open>get\<close> functions of \<open>node:http\<close> and \<open>node:https\<close>,
  \<open>process.browser\<close> and \<open>location.href\<close>.
\<close>

record env =
  url_parse :: "url_arg \<Rightarrow> Url"
  url_resolve :: "Url \<Rightarrow> string \<Rightarrow> string"
  http_get :: "request \<Rightarrow> exchange"
  https_get :: "request \<Rightarrow> exchange"
  browser :: bool
  location_href :: string

definition get :: "env \<Rightarrow> Url \<Rightarrow> http_options \<Rightarrow> error + response" where
  "get E u httpOptions =
     (let protocol_get = (if protocol u = Some ''https:'' then https_get E else http_get E);
          req = \<lparr> req_hostname = hostname u, req_port = port u, req_path = path u,
                  req_auth = auth u, req_protocol = protocol u,
                  req_headers = (case headers httpOptions of None \<Rightarrow> [] | Some h \<Rightarrow> h),
                  req_withCredentials = withCredentials httpOptions,
                  req_timeout = timeout httpOptions \<rparr>
      in case protocol_get req of
           RequestError e \<Rightarrow> Inl e
         | Response st hs chunks fin \<Rightarrow>
             (case fin of
                ResponseError e \<Rightarrow> Inl e
              | End \<Rightarrow> Inr \<lparr> statusCode = st, res_headers = hs,
                             body = Some (foldl (\<lambda>b d. b @ d) [] chunks) \<rparr>))"

text \<open>\<open>redirects || []\<close>: an array is truthy, \<open>undefined\<close> is not.\<close>

definition or_empty :: "string list option \<Rightarrow> string list" where
  "or_empty redirects0 = (case redirects0 of None \<Rightarrow> [] | Some r \<Rightarrow> r)"

definition too_many_redirects :: "string list \<Rightarrow> string" where
  "too_many_redirects rs =
     ''Error downloading '' @ hd rs @ ''. '' @ [CHR 0x0A] @ ''Too many redirects: '' @
     [CHR 0x0A] @ ''  '' @ join ('' '' @ [CHR 0x0A] @ ''  '') rs"

definition caught :: "Url \<Rightarrow> error \<Rightarrow> error" where
  "caught u err = ResolverError (OnoWrap err (''Error downloading '' @ href u)) (Some (href u))"

function download :: "env \<Rightarrow> url_arg \<Rightarrow> http_options \<Rightarrow> string list option \<Rightarrow> error + buffer" where
  "download E u0 httpOptions redirects0 =
     (let u = url_parse E u0;
          rs = or_empty redirects0 @ [href u]
      in case get E u httpOptions of
           Inl err \<Rightarrow> Inl (caught u err)
         | Inr res \<Rightarrow>
             if statusCode res \<ge> 400 then
               Inl (caught u (OnoProps (statusCode res) (''HTTP ERROR '' @ decimal (statusCode res))))
             else if statusCode res \<ge> 300 then
               if int (length rs) > redirects httpOptions then
                 Inl (ResolverError (OnoProps (statusCode res) (too_many_redirects rs)) None)
               else if \<not> truthy (map_of (res_headers res) ''location'') then
                 Inl (caught u (OnoProps (statusCode res)
                        (''HTTP '' @ decimal (statusCode res) @ '' redirect with no location header'')))
               else
                 download E (UrlStr (url_resolve E u (the (map_of (res_headers res) ''location''))))
                   httpOptions (Some rs)
             else Inr (case body res of None \<Rightarrow> [] | Some b \<Rightarrow> b))"
  by pat_completeness auto
termination
  by (relation "measure (\<lambda>(E, u0, httpOptions, redirects0).
        nat (redirects httpOptions + 1 - int (length (or_empty redirects0))))")
     (auto simp: or_empty_def split: option.splits)

declare download.simps [simp del]

text \<open>
  \<open>read\<close> parses \<open>file.url\<close> and, in a browser and for a URL without protocol,
  takes the protocol of the current page; \<open>read_url\<close> is the \<open>Url\<close> it then hands
  to \<open>download\<close>.
\<close>

definition read_url :: "env \<Rightarrow> file_info \<Rightarrow> Url" where
  "read_url E file =
     (let u = url_parse E (UrlStr (url file))
      in if browser E \<and> \<not> truthy (protocol u)
         then u\<lparr> protocol := protocol (url_parse E (UrlStr (location_href E))) \<rparr>
         else u)"

definition read :: "env \<Rightarrow> http_options \<Rightarrow> file_info \<Rightarrow> error + buffer" where
  "read E this file = download E (UrlObj (read_url E file)) this None"

subsection \<open>The requests a download issues\<close>

text \<open>
  \<open>requested\<close> follows the recursion of \<open>download\<close> and collects the \<open>Url\<close>
  objects \<open>get\<close> is called with, in order.
\<close>

function requested :: "env \<Rightarrow> url_arg \<Rightarrow> http_options \<Rightarrow> string list option \<Rightarrow> Url list" where
  "requested E u0 httpOptions redirects0 =
     (let u = url_parse E u0;
          rs = or_empty redirects0 @ [href u]
      in case get E u httpOptions of
           Inl err \<Rightarrow> [u]
         | Inr res \<Rightarrow>
             if statusCode res \<ge> 400 then [u]
             else if statusCode res \<ge> 300 then
               if int (length rs) > redirects httpOptions then [u]
               else if \<not> truthy (map_of (res_headers res) ''location'') then [u]
               else u # requested E (UrlStr (url_resolve E u (the (map_of (res_headers res) ''location''))))
                          httpOptions (Some rs)
             else [u])"
  by pat_completeness auto
termination
  by (relation "measure (\<lambda>(E, u0, httpOptions, redirects0).
        nat (redirects httpOptions + 1 - int (length (or_empty redirects0))))")
     (auto simp: or_empty_def split: option.splits)

declare requested.simps [simp del]

definition read_requests :: "env \<Rightarrow> http_options \<Rightarrow> file_info \<Rightarrow> Url list" where
  "read_requests E this file = requested E (UrlObj (read_url E file)) this None"

text \<open>
  A server that answers \<open>n\<close> requests in a row with a redirect status, starting at
  \<open>u0\<close>, each but the last with a location to follow.
\<close>

fun redirected :: "env \<Rightarrow> http_options \<Rightarrow> nat \<Rightarrow> url_arg \<Rightarrow> bool" where
  "redirected E httpOptions 0 u0 = True"
| "redirected E httpOptions (Suc n) u0 =
     (case get E (url_parse E u0) httpOptions of
        Inl err \<Rightarrow> False
      | Inr res \<Rightarrow>
          300 \<le> statusCode res \<and> statusCode res < 400 \<and>
          (n = 0 \<or>
           (truthy (map_of (res_headers res) ''location'') \<and>
            redirected E httpOptions n
              (UrlStr (url_resolve E (url_parse E u0) (the (map_of (res_headers res) ''location'')))))))"

subsection \<open>A concrete network\<close>

text \<open>
  Four hosts: \<open>a\<close>, \<open>b\<close> and \<open>c\<close> each redirect to the next, \<open>d\<close> serves a
  document; \<open>e\<close> redirects with an empty location, \<open>f\<close> is not found and \<open>g\<close>
  redirects with no location.
\<close>

definition chain_parse :: "url_arg \<Rightarrow> Url" where
  "chain_parse a =
     (case a of
        UrlObj u \<Rightarrow> u
      | UrlStr s \<Rightarrow> \<lparr> href = s, protocol = Some ''http:'', hostname = Some s, port = None,
                       path = Some ''/'', auth = None \<rparr>)"

definition chain_resolve :: "Url \<Rightarrow> string \<Rightarrow> string" where
  "chain_resolve u ref = (if ref = [] then href u else ref)"

definition chain_net :: "request \<Rightarrow> exchange" where
  "chain_net r =
     (if req_hostname r = Some ''a'' then Response 302 [(''location'', ''b'')] [] End
      else if req_hostname r = Some ''b'' then Response 301 [(''location'', ''c'')] [] End
      else if req_hostname r = Some ''c'' then Response 302 [(''location'', ''d'')] [] End
      else if req_hostname r = Some ''d'' then Response 200 [] [[0x7B], [0x7D]] End
      else if req_hostname r = Some ''e'' then Response 302 [(''location'', [])] [] End
      else if req_hostname r = Some ''f'' then Response 404 [] [] End
      else if req_hostname r = Some ''g'' then Response 303 [] [] End
      else RequestError (Thrown ''getaddrinfo ENOTFOUND''))"

definition chain_env :: env where
  "chain_env = \<lparr> url_parse = chain_parse, url_resolve = chain_resolve, http_get = chain_net,
     https_get = chain_net, browser = False, location_href = [] \<rparr>"

definition file_at :: "string \<Rightarrow> file_info" where
  "file_at u = \<lparr> url = u, extension = [], data = JUndefined \<rparr>"


section \<open>The YAML parser (\<open>lib/parsers/yaml.js\<close>)\<close>

text \<open>The schemas \<open>js-yaml\<close> exports; the parser passes \<open>JSON_SCHEMA\<close>.\<close>

datatype yaml_schema = FAILSAFE_SCHEMA | JSON_SCHEMA | CORE_SCHEMA | DEFAULT_SCHEMA

text \<open>
  What the module takes from outside: \<open>Buffer.prototype.toString\<close> called with no
  argument (Node then decodes the bytes as UTF-8) and \<open>load\<close> of \<open>js-yaml\<close> with
  its \<open>schema\<close> option. \<open>load\<close> returns a value or throws; \<open>Inl m\<close> is an
  exception whose \<open>message\<close> is \<open>m\<close>.
\<close>

record platform =
  buffer_toString :: "buffer \<Rightarrow> string"
  yaml_load :: "string \<Rightarrow> yaml_schema \<Rightarrow> string + js_value"

text \<open>The properties of the parser object.\<close>

record parser =
  parser_order :: nat
  allowEmpty :: bool
  canParse :: "string list"

definition yaml_parser :: parser where
  "yaml_parser = \<lparr> parser_order = 200, allowEmpty = True,
     canParse = [''.yaml'', ''.yml'', ''.json''] \<rparr>"

definition parse :: "platform \<Rightarrow> parser \<Rightarrow> file_info \<Rightarrow> error + js_value" where
  "parse P this file =
     (let data = (case data file of JBuffer b \<Rightarrow> JString (buffer_toString P b) | d \<Rightarrow> d)
      in case data of
           JString s \<Rightarrow>
             (case yaml_load P s JSON_SCHEMA of
                Inr v \<Rightarrow> Inr v
              | Inl m \<Rightarrow> Inl (ParserError m (url file)))
         | _ \<Rightarrow> Inr data)"

text \<open>The text the parser loads, when \<open>data\<close> is a \<open>Buffer\<close> or a string.\<close>

definition text_of :: "platform \<Rightarrow> js_value \<Rightarrow> string option" where
  "text_of P d =
     (case d of JBuffer b \<Rightarrow> Some (buffer_toString P b) | JString s \<Rightarrow> Some s | _ \<Rightarrow> None)"


subsection \<open>Decoding a \<open>Buffer\<close>\<close>

text \<open>
  \<open>Buffer.prototype.toString\<close> of Node, called with no argument, decodes the bytes as
  UTF-8 with the decoder of the Encoding standard: a well-formed sequence of one to four
  bytes is one character, and every ill-formed sequence is the replacement character
  U+FFFD. A HOL string holds a text as the bytes of its UTF-8 form, so decoding keeps the
  bytes of each well-formed sequence and writes \<open>EF BF BD\<close> for each ill-formed one.

  \<open>utf8_decode needed lo hi seen bs\<close> reads \<open>bs\<close> when \<open>needed\<close> more bytes of the
  sequence \<open>seen\<close> are expected, the next of them between \<open>lo\<close> and \<open>hi\<close>.
\<close>

definition chars :: "buffer \<Rightarrow> string" where
  "chars b = map (\<lambda>w. char_of (unat w)) b"

definition replacement :: string where
  "replacement = chars [0xEF, 0xBF, 0xBD]"

function utf8_decode :: "nat \<Rightarrow> nat \<Rightarrow> nat \<Rightarrow> buffer \<Rightarrow> buffer \<Rightarrow> string" where
  "utf8_decode needed lo hi seen [] = (if needed = 0 then [] else replacement)"
| "utf8_decode needed lo hi seen (b # bs) =
     (if needed = 0 then
        if unat b \<le> 0x7F then chars [b] @ utf8_decode 0 0x80 0xBF [] bs
        else if 0xC2 \<le> unat b \<and> unat b \<le> 0xDF then utf8_decode 1 0x80 0xBF [b] bs
        else if 0xE0 \<le> unat b \<and> unat b \<le> 0xEF then
          utf8_decode 2 (if unat b = 0xE0 then 0xA0 else 0x80)
            (if unat b = 0xED then 0x9F else 0xBF) [b] bs
        else if 0xF0 \<le> unat b \<and> unat b \<le> 0xF4 then
          utf8_decode 3 (if unat b = 0xF0 then 0x90 else 0x80)
            (if unat b = 0xF4 then 0x8F else 0xBF) [b] bs
        else replacement @ utf8_decode 0 0x80 0xBF [] bs
      else if lo \<le> unat b \<and> unat b \<le> hi then
        if needed = 1 then chars (seen @ [b]) @ utf8_decode 0 0x80 0xBF [] bs
        else utf8_decode (needed - 1) 0x80 0xBF (seen @ [b]) bs
      else replacement @ utf8_decode 0 0x80 0xBF [] (b # bs))"
  by pat_completeness auto
termination
  by (relation "measure (\<lambda>(needed, lo, hi, seen, bs). 2 * length bs + (if needed = 0 then 0 else 1))")
     auto

definition toString :: "buffer \<Rightarrow> string" where
  "toString b = utf8_decode 0 0x80 0xBF [] b"




text \<open>
  The platform of Node around a loader: \<open>toString\<close> is the decoder above.
\<close>

definition node_platform :: "(string \<Rightarrow> yaml_schema \<Rightarrow> string + js_value) \<Rightarrow> platform" where
  "node_platform load = \<lparr> buffer_toString = toString, yaml_load = load \<rparr>"

subsection \<open>Running the parser\<close>

text \<open>
  Modelled from the spec: the parser runner (\<open>lib/parse\<close>), which is not among the
  source files. It enforces the parser's \<open>allowEmpty\<close>: "on zero-byte input, parsers with
  \<open>allowEmpty == false\<close> fail with \<open>ParserError("empty")\<close>"; otherwise the result is
  what the parser's \<open>parse\<close> returns. Zero-byte input is a \<open>Buffer\<close> or a string of
  length zero.
\<close>

definition zero_byte :: "js_value \<Rightarrow> bool" where
  "zero_byte d = (d = JBuffer [] \<or> d = JString [])"

definition run_parser :: "platform \<Rightarrow> parser \<Rightarrow> file_info \<Rightarrow> error + js_value" where
  "run_parser P this file =
     (if zero_byte (data file) \<and> \<not> allowEmpty this
      then Inl (ParserError ''empty'' (url file))
      else parse P this file)"

subsection \<open>A concrete platform\<close>

text \<open>
  A loader that knows three texts and rejects every other one. For the empty text, which
  holds no document, \<open>load\<close> of \<open>js-yaml\<close> returns \<open>undefined\<close>.
\<close>

definition sample_load :: "string \<Rightarrow> yaml_schema \<Rightarrow> string + js_value" where
  "sample_load s schema =
     (if s = [] then Inr JUndefined
      else if s = ''{}'' then Inr (JObject [])
      else if s = ''a: 1'' then Inr (JObject [(''a'', JNumber 1)])
      else Inl ''end of the stream or a document separator is expected'')"

definition sample_platform :: platform where
  "sample_platform = node_platform sample_load"

section \<open>The reference graph: pointers, catalog, crawler and dereferencer\<close>

text \<open>
  The modules that resolve pointers, keep the catalog, crawl documents and dereference
  them (\<open>lib/pointer\<close>, \<open>lib/refs\<close>, \<open>lib/resolve-external\<close>, \<open>lib/dereference\<close>,
  \<open>lib/util/url\<close>) are not among the source files; only their tests are. This section
  models them from the specification. A location is a document URL with the decoded
  tokens of a JSON Pointer; documents are given as parsed values.
\<close>

type_synonym loc = "string \<times> string list"

type_synonym documents = "(string \<times> js_value) list"

text \<open>
  Modelled from the spec: \<open>stripHash\<close> of the URL normalizer (\<open>lib/util/url\<close>),
  "returns everything before \<open>#\<close>".
\<close>

definition strip_hash :: "string \<Rightarrow> string" where
  "strip_hash s = takeWhile (\<lambda>c. c \<noteq> CHR ''#'') s"

text \<open>
  Modelled from the spec: \<open>getHash\<close> of the URL normalizer (\<open>lib/util/url\<close>),
  "returns the \<open>#\<close>... tail or \<open>#\<close> if none".
\<close>

definition get_hash :: "string \<Rightarrow> string" where
  "get_hash s = (let t = dropWhile (\<lambda>c. c \<noteq> CHR ''#'') s in if t = [] then ''#'' else t)"

text \<open>
  Modelled from the spec: the pointer engine (\<open>lib/pointer\<close>), "tokens are
  \<open>/\<close>-delimited". \<open>split_on\<close> cuts a string at every delimiter.
\<close>

fun split_on :: "char \<Rightarrow> string \<Rightarrow> string \<Rightarrow> string list" where
  "split_on d acc [] = [rev acc]"
| "split_on d acc (c # cs) =
     (if c = d then rev acc # split_on d [] cs else split_on d (c # acc) cs)"

text \<open>
  Modelled from the spec: the pointer engine (\<open>lib/pointer\<close>), "URI-fragment
  decoding". \<open>hex_value\<close> reads one hexadecimal digit.
\<close>

definition hex_value :: "char \<Rightarrow> nat option" where
  "hex_value c =
     (case List.find (\<lambda>p. fst p = c)
             (zip ''0123456789abcdefABCDEF'' ([0 ..< 16] @ [10 ..< 16])) of
        None \<Rightarrow> None
      | Some p \<Rightarrow> Some (snd p))"

text \<open>
  Modelled from the spec: the pointer engine (\<open>lib/pointer\<close>), "the fragment is decoded
  only by the Pointer Engine": every \<open>%xy\<close> with two hexadecimal digits becomes the
  character of that code.
\<close>

fun percent_decode :: "string \<Rightarrow> string" where
  "percent_decode (c # a # b # cs) =
     (if c = CHR ''%'' then
        (case (hex_value a, hex_value b) of
           (Some h, Some l) \<Rightarrow> char_of (16 * h + l) # percent_decode cs
         | _ \<Rightarrow> c # percent_decode (a # b # cs))
      else c # percent_decode (a # b # cs))"
| "percent_decode cs = cs"

text \<open>
  Modelled from the spec: the pointer engine (\<open>lib/pointer\<close>), "\<open>~1\<close> decodes to
  \<open>/\<close>, \<open>~0\<close> to \<open>~\<close>".
\<close>

fun unescape :: "string \<Rightarrow> string" where
  "unescape (c # d # cs) =
     (if c = CHR ''~'' \<and> d = CHR ''1'' then CHR ''/'' # unescape cs
      else if c = CHR ''~'' \<and> d = CHR ''0'' then CHR ''~'' # unescape cs
      else c # unescape (d # cs))"
| "unescape cs = cs"

text \<open>
  Modelled from the spec: the pointer engine (\<open>lib/pointer\<close>); the encoding that
  \<open>unescape\<close> reverses, for writing a pointer out.
\<close>

fun escape :: "string \<Rightarrow> string" where
  "escape [] = []"
| "escape (c # cs) =
     (if c = CHR ''~'' then ''~0'' @ escape cs
      else if c = CHR ''/'' then ''~1'' @ escape cs
      else c # escape cs)"

text \<open>
  Modelled from the spec: the pointer engine (\<open>lib/pointer\<close>), "JSON Pointer per RFC
  6901 ... empty pointer targets the root"; a pointer that is neither empty nor starts
  with \<open>/\<close> is an \<open>InvalidPointerError\<close>. The argument is the \<open>#\<close>... tail of a URL.
\<close>

definition pointer_tokens :: "string \<Rightarrow> error + string list" where
  "pointer_tokens hash =
     (let p = percent_decode (case hash of [] \<Rightarrow> [] | c # cs \<Rightarrow> if c = CHR ''#'' then cs else hash)
      in case p of
           [] \<Rightarrow> Inr []
         | c # cs \<Rightarrow>
             if c = CHR ''/'' then Inr (map unescape (split_on CHR ''/'' [] cs))
             else Inl (InvalidPointerError hash))"

text \<open>
  Modelled from the spec: the pointer engine (\<open>lib/pointer\<close>); the pointer string of a
  list of tokens, as recorded in \<open>circularRefs\<close>.
\<close>

definition render :: "string list \<Rightarrow> string" where
  "render at = ''#'' @ concat (map (\<lambda>t. ''/'' @ escape t) at)"

text \<open>
  Modelled from the spec: steps 1 and 2 of the crawler (\<open>lib/resolve-external\<close>,
  \<open>lib/dereference\<close>), "resolve \<open>s\<close> against the current document URL" and "split into
  \<open>(docURL, pointer)\<close>". \<open>R\<close> is \<open>resolve(base, ref)\<close> of the URL normalizer, RFC 3986
  reference resolution, taken as a parameter.
\<close>

definition target :: "(string \<Rightarrow> string \<Rightarrow> string) \<Rightarrow> string \<Rightarrow> string \<Rightarrow> error + loc" where
  "target R base s =
     (let abs = R base s
      in case pointer_tokens (get_hash abs) of
           Inl e \<Rightarrow> Inl e
         | Inr ts \<Rightarrow> Inr (strip_hash abs, ts))"

text \<open>
  Modelled from the spec: the ref node of the data model (\<open>lib/ref\<close>), "a map whose
  ordered keys contain \<open>$ref\<close> with a string value".
\<close>

definition ref_of :: "js_value \<Rightarrow> string option" where
  "ref_of v =
     (case v of
        JObject kvs \<Rightarrow> (case map_of kvs ''$ref'' of Some (JString s) \<Rightarrow> Some s | _ \<Rightarrow> None)
      | _ \<Rightarrow> None)"

text \<open>
  Modelled from the spec: the pointer engine (\<open>lib/pointer\<close>), "array indices must be
  canonical decimal without leading zeros (except \<open>0\<close>)".
\<close>

definition index_of :: "string \<Rightarrow> nat option" where
  "index_of t =
     (if t = ''0'' then Some 0
      else if t = [] then None
      else if hd t = CHR ''0'' then None
      else if list_all (\<lambda>c. c \<in> set ''0123456789'') t
      then Some (foldl (\<lambda>n c. 10 * n + the (hex_value c)) 0 t)
      else None)"

text \<open>
  Modelled from the spec: \<open>get\<close> of the pointer engine (\<open>lib/pointer\<close>), one token
  deep: the member of a map, or the element of a sequence at a canonical index, with the
  token of its location.
\<close>

definition step :: "js_value \<Rightarrow> string \<Rightarrow> (string \<times> js_value) option" where
  "step v t =
     (case v of
        JObject kvs \<Rightarrow> (case map_of kvs t of None \<Rightarrow> None | Some c \<Rightarrow> Some (t, c))
      | JArray vs \<Rightarrow>
          (case index_of t of
             None \<Rightarrow> None
           | Some i \<Rightarrow> if i < length vs then Some (decimal i, vs ! i) else None)
      | _ \<Rightarrow> None)"

text \<open>
  Modelled from the spec: the document catalog (\<open>lib/refs\<close>): the parsed documents by
  URL and the "bookkeeping flags \<open>circular: bool\<close> and \<open>circularRefs: [pointer]\<close>, written
  only by the Dereferencer".
\<close>

record catalog =
  docs :: documents
  circular :: bool
  circularRefs :: "string list"

text \<open>
  Modelled from the spec: \<open>resolve(url, pointer)\<close> of the catalog (\<open>lib/refs\<close>,
  \<open>lib/pointer\<close>), which "walks the JSON Pointer into the document, following nested
  \<open>$ref\<close> values encountered mid-path by consulting the catalog"; "path not found fails
  with \<open>MissingPointerError\<close>". \<open>walk\<close> returns the value with the location it was
  found at. Each reference followed takes one unit of fuel; \<open>None\<close> is running out.
\<close>

fun walk :: "nat \<Rightarrow> (string \<Rightarrow> string \<Rightarrow> string) \<Rightarrow> documents \<Rightarrow> string \<Rightarrow> string list \<Rightarrow> js_value \<Rightarrow>
    string list \<Rightarrow> (error + loc \<times> js_value) option" where
  "walk fuel R D u done v [] = Some (Inr ((u, done), v))"
| "walk fuel R D u done v (t # ts) =
     (case ref_of v of
        Some s \<Rightarrow>
          (case fuel of
             0 \<Rightarrow> None
           | Suc f \<Rightarrow>
               (case target R u s of
                  Inl e \<Rightarrow> Some (Inl e)
                | Inr T \<Rightarrow>
                    (case map_of D (fst T) of
                       None \<Rightarrow> Some (Inl (MissingPointerError (fst T)))
                     | Some d \<Rightarrow> walk f R D (fst T) [] d (snd T @ t # ts))))
      | None \<Rightarrow>
          (case step v t of
             None \<Rightarrow> Some (Inl (MissingPointerError (u @ render (done @ [t]))))
           | Some (t', c) \<Rightarrow> walk fuel R D u (done @ [t']) c ts))"

text \<open>
  Modelled from the spec: \<open>resolve(url, pointer)\<close> of the catalog (\<open>lib/refs\<close>): the
  walk from the root of the document the URL names.
\<close>

definition resolve :: "nat \<Rightarrow> (string \<Rightarrow> string \<Rightarrow> string) \<Rightarrow> documents \<Rightarrow> loc \<Rightarrow>
    (error + loc \<times> js_value) option" where
  "resolve fuel R D T =
     (case map_of D (fst T) of
        None \<Rightarrow> Some (Inl (MissingPointerError (fst T)))
      | Some d \<Rightarrow> walk fuel R D (fst T) [] d (snd T))"

text \<open>
  Modelled from the spec: the dereferencer (\<open>lib/dereference\<close>), "the in-progress
  partial tree for that frame": the value the frame's target stands for, with its
  location, found by following the target and every \<open>$ref\<close> it resolves to. A chain of
  references that comes back to itself has no such value; the model fails with
  \<open>ReferenceError\<close> there.
\<close>

fun frame_tree :: "nat \<Rightarrow> (string \<Rightarrow> string \<Rightarrow> string) \<Rightarrow> documents \<Rightarrow> loc list \<Rightarrow> loc \<Rightarrow>
    (error + loc \<times> js_value) option" where
  "frame_tree 0 R D seen T = None"
| "frame_tree (Suc n) R D seen T =
     (if T \<in> set seen then Some (Inl (ReferenceError (fst T @ render (snd T))))
      else case resolve n R D T of
             None \<Rightarrow> None
           | Some (Inl e) \<Rightarrow> Some (Inl e)
           | Some (Inr (L, v)) \<Rightarrow>
               (case ref_of v of
                  None \<Rightarrow> Some (Inr (L, v))
                | Some s \<Rightarrow>
                    (case target R (fst L) s of
                       Inl e \<Rightarrow> Some (Inl e)
                     | Inr T' \<Rightarrow> frame_tree n R D (T # seen) T')))"

text \<open>
  Modelled from the spec: the \<open>dereference.circular\<close> option (\<open>lib/options\<close>), "one of
  \<open>{true (share), false (reject), "ignore" (leave $ref)}\<close>".
\<close>

datatype circular_option = Share | Reject | Ignore

text \<open>
  Modelled from the spec: the dereferenced tree (\<open>lib/dereference\<close>), with "nodes as
  entries in an arena keyed by integer ids; a ref becomes an id; cycles are back-edges.
  Identity equality in tests becomes id equality". The id of a node is its index in the
  arena. A map and a sequence hold the ids of their members, a sequence under the decimal
  indices; \<open>NKept\<close> is a \<open>$ref\<close> node left as it is, and \<open>NHole\<close> a map or sequence
  whose members are still being dereferenced.
\<close>

datatype node =
    NLeaf js_value
  | NSeq "(string \<times> nat) list"
  | NMap "(string \<times> nat) list"
  | NKept js_value
  | NHole

text \<open>
  Modelled from the spec: the arena of the dereferenced tree (\<open>lib/dereference\<close>). An
  entry holds the node with the value of the input it was made from and the location of
  that value; "whichever is visited first defines identity", so a value is given an entry
  when it is first visited and keeps it.
\<close>

type_synonym arena = "((loc \<times> js_value) \<times> node) list"

text \<open>
  Modelled from the spec: what the dereferencer threads (\<open>lib/dereference\<close>): the
  catalog, whose flags it writes, and the arena of its output.
\<close>

record run = catalog +
  arena :: arena

text \<open>
  Modelled from the spec: the id of the entry made from a value (\<open>lib/dereference\<close>),
  if the value has been visited: the index of its first occurrence.
\<close>

fun position :: "'a \<Rightarrow> 'a list \<Rightarrow> nat option" where
  "position x [] = None"
| "position x (y # ys) = (if x = y then Some 0 else map_option Suc (position x ys))"

text \<open>
  Modelled from the spec: the members of a map and the elements of a sequence
  (\<open>lib/dereference\<close>), in document order, an element under its canonical decimal index.
\<close>

fun members :: "js_value \<Rightarrow> (string \<times> js_value) list" where
  "members (JObject kvs) = kvs"
| "members (JArray vs) = zip (map decimal [0 ..< length vs]) vs"
| "members v = []"

text \<open>
  Modelled from the spec: the node of a value whose members have the ids \<open>fs\<close>
  (\<open>lib/dereference\<close>).
\<close>

fun branch :: "js_value \<Rightarrow> (string \<times> nat) list \<Rightarrow> node" where
  "branch (JObject kvs) fs = NMap fs"
| "branch (JArray vs) fs = NSeq fs"
| "branch v fs = NLeaf v"

text \<open>
  Modelled from the spec: the dereferencer (\<open>lib/dereference\<close>), case (a) of a circular
  reference, "the original \<open>$ref\<close> node unchanged": the entry of that \<open>$ref\<close> node,
  made when the node is first left in place.
\<close>

definition keep :: "run \<Rightarrow> loc \<Rightarrow> js_value \<Rightarrow> nat \<times> run" where
  "keep S L v =
     (case position (L, v) (map fst (arena S)) of
        Some i \<Rightarrow> (i, S)
      | None \<Rightarrow> (length (arena S), S\<lparr> arena := arena S @ [((L, v), NKept v)] \<rparr>))"

text \<open>
  Modelled from the spec: the dereferencer (\<open>lib/dereference\<close>). It "maintains a stack
  of currently-being-expanded \<open>(docURL, pointer)\<close> frames. For a ref node with target
  \<open>(tUrl, tPtr)\<close>: if \<open>(tUrl, tPtr)\<close> is present on the stack, this is a circular
  reference. Emit either (a) the original \<open>$ref\<close> node unchanged, or (b) a shared pointer
  to the in-progress partial tree for that frame, according to the \<open>dereference.circular\<close>
  option. Record the ref's own pointer in \<open>circularRefs\<close> and set \<open>circular = true\<close>.
  When \<open>false\<close>, fail the whole operation with \<open>ReferenceError\<close>. Otherwise, push the
  frame, recursively dereference the target value, pop, and substitute." "Shared
  sub-trees (two different refs to the same target) MUST yield reference-equal nodes in
  the output": a value that has an entry in the arena is not dereferenced again, its id
  is the result. A value without one is given the next id before its members are
  dereferenced, and its node is written when they are. Sibling keys of \<open>$ref\<close> are
  ignored; a map or a sequence being expanded is a frame as well; traversal is in
  document order. \<open>at\<close> is the pointer from the root of the output. The run is returned
  with its flags also when the operation fails. Each reference followed takes one unit
  of fuel; \<open>None\<close> is running out.
\<close>

function deref_value :: "nat \<Rightarrow> (string \<Rightarrow> string \<Rightarrow> string) \<Rightarrow> circular_option \<Rightarrow> run \<Rightarrow> loc \<Rightarrow>
    js_value \<Rightarrow> string list \<Rightarrow> loc list \<Rightarrow> ((error + nat) \<times> run) option"
  and deref_members :: "nat \<Rightarrow> (string \<Rightarrow> string \<Rightarrow> string) \<Rightarrow> circular_option \<Rightarrow> run \<Rightarrow> loc \<Rightarrow>
    (string \<times> js_value) list \<Rightarrow> string list \<Rightarrow> loc list \<Rightarrow>
    ((error + (string \<times> nat) list) \<times> run) option"
where
  "deref_value fuel R opt S L v at stack =
     (case ref_of v of
        Some s \<Rightarrow>
          (case target R (fst L) s of
             Inl e \<Rightarrow> Some (Inl e, S)
           | Inr T \<Rightarrow>
               if T \<in> set stack then
                 (let S' = S\<lparr> circular := True, circularRefs := circularRefs S @ [render at] \<rparr>
                  in case opt of
                       Reject \<Rightarrow> Some (Inl (ReferenceError (render at)), S')
                     | Ignore \<Rightarrow> Some (Inr (fst (keep S' L v)), snd (keep S' L v))
                     | Share \<Rightarrow>
                         (case frame_tree fuel R (docs S) [] T of
                            None \<Rightarrow> None
                          | Some (Inl e) \<Rightarrow> Some (Inl e, S')
                          | Some (Inr X) \<Rightarrow>
                              (case position X (map fst (arena S')) of
                                 None \<Rightarrow> Some (Inl (ReferenceError (render at)), S')
                               | Some i \<Rightarrow> Some (Inr i, S'))))
               else
                 (case fuel of
                    0 \<Rightarrow> None
                  | Suc f \<Rightarrow>
                      (case resolve f R (docs S) T of
                         None \<Rightarrow> None
                       | Some (Inl e) \<Rightarrow> Some (Inl e, S)
                       | Some (Inr (L', v')) \<Rightarrow> deref_value f R opt S L' v' at (T # stack))))
      | None \<Rightarrow>
          (case position (L, v) (map fst (arena S)) of
             Some i \<Rightarrow> Some (Inr i, S)
           | None \<Rightarrow>
               (case deref_members fuel R opt (S\<lparr> arena := arena S @ [((L, v), NHole)] \<rparr>) L
                       (members v) at (L # stack) of
                  None \<Rightarrow> None
                | Some (Inl e, S') \<Rightarrow> Some (Inl e, S')
                | Some (Inr fs, S') \<Rightarrow>
                    Some (Inr (length (arena S)),
                          S'\<lparr> arena := (arena S')[length (arena S) := ((L, v), branch v fs)] \<rparr>))))"
| "deref_members fuel R opt S L [] at stack = Some (Inr [], S)"
| "deref_members fuel R opt S L (kv # kvs) at stack =
     (case deref_value fuel R opt S (fst L, snd L @ [fst kv]) (snd kv) (at @ [fst kv]) stack of
        None \<Rightarrow> None
      | Some (Inl e, S') \<Rightarrow> Some (Inl e, S')
      | Some (Inr x, S') \<Rightarrow>
          (case deref_members fuel R opt S' L kvs at stack of
             None \<Rightarrow> None
           | Some (Inl e, S'') \<Rightarrow> Some (Inl e, S'')
           | Some (Inr fs, S'') \<Rightarrow> Some (Inr ((fst kv, x) # fs), S'')))"
  by pat_completeness auto
termination
proof (relation "inv_image (less_than <*lex*> less_than)
     (\<lambda>x. case x of
        Inl (fuel, R, opt, S, L, v, at, stack) \<Rightarrow> (fuel, 2 * size v + 1)
      | Inr (fuel, R, opt, S, L, kvs, at, stack) \<Rightarrow>
          (fuel, 2 * size_list (\<lambda>kv. size (snd kv)) kvs))", goal_cases)
  case 1
  show ?case by auto
next
  case (2 fuel R opt S L v)
  have a: "size_list (\<lambda>kv. size (snd kv)) kvs \<le> size_list (size_prod (\<lambda>k. 0) size) kvs"
    for kvs :: "(string \<times> js_value) list"
    by (induction kvs) auto
  have b: "size_list (\<lambda>kv. size (snd kv)) (zip ks vs) \<le> size_list size vs"
    for ks :: "string list" and vs :: "js_value list"
  proof (induction vs arbitrary: ks)
    case Nil
    show ?case by simp
  next
    case (Cons w ws)
    show ?case using Cons [of "tl ks"] by (cases ks) auto
  qed
  have "size_list (\<lambda>kv. size (snd kv)) (members v) \<le> size v"
  proof (cases v)
    case (JObject kvs)
    with a [of kvs] show ?thesis by simp
  next
    case (JArray vs)
    with b [of "map decimal [0 ..< length vs]" vs] show ?thesis by simp
  qed simp_all
  then show ?case by simp
next
  case 3
  then show ?case by simp
next
  case 4
  show ?case by simp
next
  case 5
  show ?case by simp
qed

declare deref_value.simps [simp del]

text \<open>
  Modelled from the spec: the crawler (\<open>lib/resolve-external\<close>), "a depth-first
  traversal visiting every node" that finds the \<open>$ref\<close> strings; "sibling keys next to
  \<open>$ref\<close> are not traversed".
\<close>

fun refs_in :: "js_value \<Rightarrow> string list"
  and refs_in_fields :: "(string \<times> js_value) list \<Rightarrow> string list"
  and refs_in_items :: "js_value list \<Rightarrow> string list"
where
  "refs_in (JObject kvs) =
     (case ref_of (JObject kvs) of Some s \<Rightarrow> [s] | None \<Rightarrow> refs_in_fields kvs)"
| "refs_in (JArray vs) = refs_in_items vs"
| "refs_in JUndefined = []"
| "refs_in JNull = []"
| "refs_in (JBool b) = []"
| "refs_in (JNumber n) = []"
| "refs_in JNaN = []"
| "refs_in (JString s) = []"
| "refs_in (JBuffer b) = []"
| "refs_in_fields [] = []"
| "refs_in_fields (kv # kvs) = refs_in (snd kv) @ refs_in_fields kvs"
| "refs_in_items [] = []"
| "refs_in_items (v # vs) = refs_in v @ refs_in_items vs"

text \<open>
  Modelled from the spec: the crawler (\<open>lib/resolve-external\<close>), step 3: "if \<open>docURL\<close>
  is not in the catalog, insert ... and schedule a read-and-parse for it; recurse into
  its value once resolved", to a fixpoint. \<open>files\<close> gives the parsed contents of every
  URL that can be read; a URL that cannot fails with \<open>ResolverError\<close>.
\<close>

function crawl :: "(string \<Rightarrow> string \<Rightarrow> string) \<Rightarrow> documents \<Rightarrow> documents \<Rightarrow> string list \<Rightarrow>
    error + documents" where
  "crawl R files D [] = Inr D"
| "crawl R files D (u # us) =
     (if u \<in> fst ` set D then crawl R files D us
      else case map_of files u of
             None \<Rightarrow> Inl (ResolverError (Thrown ''ENOENT'') (Some u))
           | Some v \<Rightarrow>
               crawl R files (D @ [(u, v)]) (us @ map (\<lambda>s. strip_hash (R u s)) (refs_in v)))"
  by pat_completeness auto
termination
proof (relation "measures [\<lambda>(R, files, D, us). card (fst ` set files - fst ` set D),
                           \<lambda>(R, files, D, us). length us]", goal_cases)
  case 1
  show ?case by simp
next
  case (2 R files D u us)
  then show ?case by simp
next
  case (3 R files D u us v)
  from 3(2) have "u \<in> fst ` set files"
    by (metis map_of_SomeD fst_conv image_eqI)
  with 3(1) have "fst ` set files - fst ` set (D @ [(u, v)]) \<subset> fst ` set files - fst ` set D"
    by auto
  then have "card (fst ` set files - fst ` set (D @ [(u, v)])) <
      card (fst ` set files - fst ` set D)"
    by (intro psubset_card_mono) auto
  then show ?case by simp
qed

text \<open>
  Modelled from the spec: the catalog a top-level operation starts with (\<open>lib/refs\<close>),
  with \<open>circular\<close> not set.
\<close>

definition empty_catalog :: catalog where
  "empty_catalog = \<lparr> docs = [], circular = False, circularRefs = [] \<rparr>"

text \<open>
  Modelled from the spec: \<open>parse(src)\<close> (\<open>lib/index\<close>), which "returns the root
  document's parsed value", "with all \<open>$ref\<close> nodes left intact", and "identifies exactly
  one resolved document (the root itself)".
\<close>

definition refparser_parse :: "documents \<Rightarrow> string \<Rightarrow> (error + js_value) \<times> catalog" where
  "refparser_parse files root =
     (case map_of files root of
        None \<Rightarrow> (Inl (ResolverError (Thrown ''ENOENT'') (Some root)), empty_catalog)
      | Some v \<Rightarrow> (Inr v, empty_catalog\<lparr> docs := [(root, v)] \<rparr>))"

text \<open>
  Modelled from the spec: what a dereference starts with (\<open>lib/dereference\<close>): the
  catalog and an empty arena.
\<close>

definition start :: "catalog \<Rightarrow> run" where
  "start C = \<lparr> docs = docs C, circular = circular C, circularRefs = circularRefs C, arena = [] \<rparr>"

text \<open>
  Modelled from the spec: \<open>dereference(src)\<close> (\<open>lib/index\<close>), which "returns the
  dereferenced tree; sets catalog \<open>circular\<close> / \<open>circularRefs\<close>": parse the root, crawl
  to the fixpoint, then dereference from the root document. The result is the id of the
  root of the tree, in the arena of the run.
\<close>

definition refparser_dereference :: "nat \<Rightarrow> (string \<Rightarrow> string \<Rightarrow> string) \<Rightarrow> circular_option \<Rightarrow>
    documents \<Rightarrow> string \<Rightarrow> ((error + nat) \<times> run) option" where
  "refparser_dereference fuel R opt files root =
     (case refparser_parse files root of
        (Inl e, C) \<Rightarrow> Some (Inl e, start C)
      | (Inr v, C) \<Rightarrow>
          (case crawl R files (docs C) (map (\<lambda>s. strip_hash (R root s)) (refs_in v)) of
             Inl e \<Rightarrow> Some (Inl e, start C)
           | Inr D \<Rightarrow> deref_value fuel R opt (start (C\<lparr> docs := D \<rparr>)) (root, []) v [] []))"

subsection \<open>Reading the result\<close>

text \<open>The flags of the catalog an operation leaves.\<close>

definition flags :: "((error + nat) \<times> run) option \<Rightarrow> (bool \<times> string list) option" where
  "flags r = (case r of None \<Rightarrow> None | Some (x, S) \<Rightarrow> Some (circular S, circularRefs S))"








subsection \<open>Sample documents\<close>

text \<open>
  A resolution of references that knows \<open>#\<close>... and \<open>./name\<close>, and three sets of
  documents: the two documents that refer to each other, a schema with two references
  to one definition, and a schema with two references to a map, one of them inside it.
\<close>

definition sample_resolve :: "string \<Rightarrow> string \<Rightarrow> string" where
  "sample_resolve base r =
     (if take 1 r = ''#'' then strip_hash base @ r
      else if take 2 r = ''./''
      then rev (dropWhile (\<lambda>c. c \<noteq> CHR ''/'') (rev (strip_hash base))) @ drop 2 r
      else r)"

definition circular_files :: documents where
  "circular_files =
     [(''/a.yaml'', JObject [(''foo'', JObject [(''$ref'', JString ''./b.yaml'')])]),
      (''/b.yaml'', JObject [(''foo'', JObject [(''$ref'', JString ''./a.yaml#/foo'')])])]"



subsection \<open>What the arena keeps\<close>



section \<open>Properties of the HTTP resolver\<close>

lemmas chain_defs = chain_env_def chain_parse_def chain_net_def chain_resolve_def
  http_resolver_def get_def or_empty_def too_many_redirects_def caught_def

lemma requested_nonempty: "requested E u0 opts r0 \<noteq> []"
  by (subst requested.simps) (simp add: Let_def split: sum.splits)

text \<open>A response \<open>get\<close> resolves with has a body: the chunks received, in order.\<close>

lemma get_body: "get E u opts = Inr res \<Longrightarrow> \<exists>b. body res = Some b"
  by (auto simp: get_def Let_def split: exchange.splits ending.splits)

text \<open>
  A download that meets more redirect responses in a row than the limit allows ends in
  the too-many-redirects branch, with the list of the URLs it requested in the message.
\<close>

lemma download_overflow:
  "redirected E opts n u0 \<Longrightarrow> 0 < n \<Longrightarrow> redirects opts < int (length (or_empty r0) + n) \<Longrightarrow>
   \<exists>st. download E u0 opts r0 =
     Inl (ResolverError (OnoProps st
       (too_many_redirects (or_empty r0 @ map href (requested E u0 opts r0)))) None)"
proof (induction n arbitrary: u0 r0)
  case 0
  then show ?case by simp
next
  case (Suc n)
  let ?u = "url_parse E u0"
  let ?rs = "or_empty r0 @ [href ?u]"
  from Suc.prems(1) obtain res where g: "get E ?u opts = Inr res"
    and st: "300 \<le> statusCode res" "statusCode res < 400"
    and rest: "n = 0 \<or> (truthy (map_of (res_headers res) ''location'') \<and>
            redirected E opts n
              (UrlStr (url_resolve E ?u (the (map_of (res_headers res) ''location'')))))"
    by (auto split: sum.splits)
  show ?case
  proof (cases "redirects opts < int (length ?rs)")
    case True
    with g st show ?thesis
      by (subst download.simps, subst requested.simps) (simp add: Let_def)
  next
    case False
    with Suc.prems(3) have n: "0 < n" by auto
    let ?next = "UrlStr (url_resolve E ?u (the (map_of (res_headers res) ''location'')))"
    from n rest have loc: "truthy (map_of (res_headers res) ''location'')"
      and red: "redirected E opts n ?next" by auto
    from Suc.prems(3) have "redirects opts < int (length (or_empty (Some ?rs)) + n)"
      by (simp add: or_empty_def)
    from Suc.IH[OF red n this] obtain st' where
      ih: "download E ?next opts (Some ?rs) =
        Inl (ResolverError (OnoProps st' (too_many_redirects
          (or_empty (Some ?rs) @ map href (requested E ?next opts (Some ?rs))))) None)"
      by blast
    have d: "download E u0 opts r0 = download E ?next opts (Some ?rs)"
      using g st False loc by (subst download.simps) (simp add: Let_def)
    have r: "requested E u0 opts r0 = ?u # requested E ?next opts (Some ?rs)"
      using g st False loc by (subst requested.simps) (simp add: Let_def)
    show ?thesis unfolding d r using ih by (simp add: or_empty_def)
  qed
qed

text \<open>
  C1. A \<open>read\<close> that meets more than \<open>redirects\<close> redirect responses in a row, each
  pointing to the next, rejects with a \<open>ResolverError\<close> built in the
  too-many-redirects branch; its message lists every URL the download requested.
\<close>

theorem read_redirect_overflow:
  "redirected E this n (UrlObj (read_url E file)) \<Longrightarrow> 0 < n \<Longrightarrow> redirects this < int n \<Longrightarrow>
   \<exists>st. read E this file =
     Inl (ResolverError (OnoProps st
       (too_many_redirects (map href (read_requests E this file)))) None)"
  using download_overflow [of E this n "UrlObj (read_url E file)" None]
  by (simp add: read_def read_requests_def or_empty_def)

text \<open>
  With \<open>redirects = 2\<close> and the chain \<open>a\<close>, \<open>b\<close>, \<open>c\<close>, \<open>d\<close>: the download requests
  \<open>a\<close>, \<open>b\<close> and \<open>c\<close>, never \<open>d\<close>, and the message lists the three.
\<close>

theorem read_redirect_overflow_witness:
  "redirected chain_env (http_resolver\<lparr>redirects := 2\<rparr>) 3
     (UrlObj (read_url chain_env (file_at ''a''))) \<and>
   map href (read_requests chain_env (http_resolver\<lparr>redirects := 2\<rparr>) (file_at ''a'')) =
     [''a'', ''b'', ''c''] \<and>
   read chain_env (http_resolver\<lparr>redirects := 2\<rparr>) (file_at ''a'') =
     Inl (ResolverError (OnoProps 302
       (''Error downloading a. '' @ [CHR 0x0A] @ ''Too many redirects: '' @ [CHR 0x0A] @
        ''  a '' @ [CHR 0x0A] @ ''  b '' @ [CHR 0x0A] @ ''  c'')) None)"
proof -
  have chain: "redirected chain_env (http_resolver\<lparr>redirects := 2\<rparr>) 3
      (UrlObj (read_url chain_env (file_at ''a'')))"
    by (simp add: chain_defs read_url_def file_at_def numeral_3_eq_3)
  have reqs: "map href (read_requests chain_env (http_resolver\<lparr>redirects := 2\<rparr>) (file_at ''a'')) =
      [''a'', ''b'', ''c'']"
    by (simp add: chain_defs read_url_def read_requests_def file_at_def requested.simps)
  have "redirects (http_resolver\<lparr>redirects := 2\<rparr>) < int 3"
    by (simp add: http_resolver_def)
  from read_redirect_overflow [OF chain _ this] obtain st where
    "read chain_env (http_resolver\<lparr>redirects := 2\<rparr>) (file_at ''a'') =
       Inl (ResolverError (OnoProps st (too_many_redirects (map href
         (read_requests chain_env (http_resolver\<lparr>redirects := 2\<rparr>) (file_at ''a''))))) None)"
    by auto
  moreover have "read chain_env (http_resolver\<lparr>redirects := 2\<rparr>) (file_at ''a'') =
      Inl (ResolverError (OnoProps 302 (too_many_redirects [''a'', ''b'', ''c''])) None)"
    by (simp add: chain_defs read_def read_url_def file_at_def download.simps)
  ultimately show ?thesis using reqs chain
    by (simp add: too_many_redirects_def)
qed

text \<open>
  Every response of a download decides its outcome by its status code: the download
  passes the outcome of the request it follows a redirect to on unchanged.
\<close>

lemma download_response:
  "u \<in> set (requested E u0 opts r0) \<Longrightarrow> get E u opts = Inr res \<Longrightarrow>
   (400 \<le> statusCode res \<longrightarrow> (\<exists>c s. download E u0 opts r0 = Inl (ResolverError c s))) \<and>
   (300 \<le> statusCode res \<and> statusCode res < 400 \<and> map_of (res_headers res) ''location'' = None
      \<longrightarrow> (\<exists>c s. download E u0 opts r0 = Inl (ResolverError c s))) \<and>
   (statusCode res < 300 \<longrightarrow> (\<exists>b. body res = Some b \<and> download E u0 opts r0 = Inr b))"
proof (induction E u0 opts r0 rule: download.induct)
  case (1 E u0 opts r0)
  let ?u = "url_parse E u0"
  let ?rs = "or_empty r0 @ [href ?u]"
  show ?case
  proof (cases "get E ?u opts")
    case (Inl err)
    with "1.prems" show ?thesis
      by (subst (asm) requested.simps) (simp add: Let_def)
  next
    case (Inr r)
    let ?next = "UrlStr (url_resolve E ?u (the (map_of (res_headers r) ''location'')))"
    show ?thesis
    proof (cases "300 \<le> statusCode r \<and> statusCode r < 400 \<and>
                  \<not> redirects opts < int (length ?rs) \<and>
                  truthy (map_of (res_headers r) ''location'')")
      case True
      then have d: "download E u0 opts r0 = download E ?next opts (Some ?rs)"
        using Inr by (subst download.simps) (simp add: Let_def)
      from True have r: "requested E u0 opts r0 = ?u # requested E ?next opts (Some ?rs)"
        using Inr by (subst requested.simps) (simp add: Let_def)
      from "1.prems"(1) r consider "u = ?u" | "u \<in> set (requested E ?next opts (Some ?rs))"
        by auto
      then show ?thesis
      proof cases
        case 1
        with "1.prems"(2) Inr have "res = r" by simp
        with True show ?thesis by auto
      next
        case 2
        have "(400 \<le> statusCode res \<longrightarrow>
                (\<exists>c s. download E ?next opts (Some ?rs) = Inl (ResolverError c s))) \<and>
              (300 \<le> statusCode res \<and> statusCode res < 400 \<and>
               map_of (res_headers res) ''location'' = None \<longrightarrow>
                (\<exists>c s. download E ?next opts (Some ?rs) = Inl (ResolverError c s))) \<and>
              (statusCode res < 300 \<longrightarrow>
                (\<exists>b. body res = Some b \<and> download E ?next opts (Some ?rs) = Inr b))"
          using True Inr 2 "1.prems"(2) by (intro "1.IH"[of ?u ?rs r]) auto
        then show ?thesis unfolding d .
      qed
    next
      case False
      then have r: "requested E u0 opts r0 = [?u]"
        using Inr by (subst requested.simps) (auto simp add: Let_def)
      with "1.prems" Inr have [simp]: "u = ?u" "res = r" by auto
      from Inr obtain b where b: "body r = Some b" by (auto dest: get_body)
      show ?thesis
        using Inr False b by (subst (1 2 3) download.simps) (auto simp add: Let_def caught_def)
    qed
  qed
qed

text \<open>
  C2. For every response \<open>read\<close> receives: a status of 400 or more makes the read fail
  with a \<open>ResolverError\<close>; a status from 300 to 399 with no location header makes it
  fail with a \<open>ResolverError\<close>; a status below 300 makes it resolve with the body of
  that response, the bytes received.
\<close>

theorem read_response:
  "u \<in> set (read_requests E this file) \<Longrightarrow> get E u this = Inr res \<Longrightarrow>
   (400 \<le> statusCode res \<longrightarrow> (\<exists>c s. read E this file = Inl (ResolverError c s))) \<and>
   (300 \<le> statusCode res \<and> statusCode res < 400 \<and> map_of (res_headers res) ''location'' = None
      \<longrightarrow> (\<exists>c s. read E this file = Inl (ResolverError c s))) \<and>
   (statusCode res < 300 \<longrightarrow> (\<exists>b. body res = Some b \<and> read E this file = Inr b))"
  unfolding read_def read_requests_def by (rule download_response)

theorem read_response_witness:
  "read chain_env http_resolver (file_at ''f'') =
     Inl (ResolverError (OnoWrap (OnoProps 404 ''HTTP ERROR 404'') ''Error downloading f'')
            (Some ''f'')) \<and>
   read chain_env http_resolver (file_at ''g'') =
     Inl (ResolverError (OnoWrap (OnoProps 303 ''HTTP 303 redirect with no location header'')
            ''Error downloading g'') (Some ''g'')) \<and>
   read chain_env http_resolver (file_at ''a'') = Inr [0x7B, 0x7D]"
proof -
  have f: "chain_parse (UrlStr ''f'') \<in> set (read_requests chain_env http_resolver (file_at ''f''))"
    by (simp add: chain_defs read_url_def read_requests_def file_at_def requested.simps)
  have g: "chain_parse (UrlStr ''g'') \<in> set (read_requests chain_env http_resolver (file_at ''g''))"
    by (simp add: chain_defs read_url_def read_requests_def file_at_def requested.simps)
  have d: "chain_parse (UrlStr ''d'') \<in> set (read_requests chain_env http_resolver (file_at ''a''))"
    by (simp add: chain_defs read_url_def read_requests_def file_at_def requested.simps)
  have rf: "get chain_env (chain_parse (UrlStr ''f'')) http_resolver =
      Inr \<lparr> statusCode = 404, res_headers = [], body = Some [] \<rparr>"
    by (simp add: chain_defs)
  have rg: "get chain_env (chain_parse (UrlStr ''g'')) http_resolver =
      Inr \<lparr> statusCode = 303, res_headers = [], body = Some [] \<rparr>"
    by (simp add: chain_defs)
  have rd: "get chain_env (chain_parse (UrlStr ''d'')) http_resolver =
      Inr \<lparr> statusCode = 200, res_headers = [], body = Some [0x7B, 0x7D] \<rparr>"
    by (simp add: chain_defs)
  have vf: "read chain_env http_resolver (file_at ''f'') =
     Inl (ResolverError (OnoWrap (OnoProps 404 ''HTTP ERROR 404'') ''Error downloading f'')
            (Some ''f''))"
    by (simp add: chain_defs read_def read_url_def file_at_def download.simps decimal.simps
        digit_def)
  have vg: "read chain_env http_resolver (file_at ''g'') =
     Inl (ResolverError (OnoWrap (OnoProps 303 ''HTTP 303 redirect with no location header'')
            ''Error downloading g'') (Some ''g''))"
    by (simp add: chain_defs read_def read_url_def file_at_def download.simps decimal.simps
        digit_def)
  from read_response [OF f rf] read_response [OF g rg] read_response [OF d rd] vf vg
  show ?thesis by simp
qed

text \<open>
  Where a download fails outside the too-many-redirects branch, the \<open>ResolverError\<close>
  carries the URL of the last request, the one that failed.
\<close>

lemma download_failure_source:
  "download E u0 opts r0 = Inl e \<Longrightarrow>
   (\<exists>st. e = ResolverError (OnoProps st
             (too_many_redirects (or_empty r0 @ map href (requested E u0 opts r0)))) None) \<or>
   (\<exists>c. e = ResolverError c (Some (href (last (requested E u0 opts r0)))))"
proof (induction E u0 opts r0 rule: download.induct)
  case (1 E u0 opts r0)
  let ?u = "url_parse E u0"
  let ?rs = "or_empty r0 @ [href ?u]"
  show ?case
  proof (cases "get E ?u opts")
    case (Inl err)
    with "1.prems" show ?thesis
      by (subst (asm) download.simps, subst (1 2) requested.simps)
         (auto simp add: Let_def caught_def)
  next
    case (Inr r)
    let ?next = "UrlStr (url_resolve E ?u (the (map_of (res_headers r) ''location'')))"
    show ?thesis
    proof (cases "300 \<le> statusCode r \<and> statusCode r < 400 \<and>
                  \<not> redirects opts < int (length ?rs) \<and>
                  truthy (map_of (res_headers r) ''location'')")
      case True
      then have d: "download E u0 opts r0 = download E ?next opts (Some ?rs)"
        using Inr by (subst download.simps) (simp add: Let_def)
      from True have r: "requested E u0 opts r0 = ?u # requested E ?next opts (Some ?rs)"
        using Inr by (subst requested.simps) (simp add: Let_def)
      have "(\<exists>st. e = ResolverError (OnoProps st (too_many_redirects
               (or_empty (Some ?rs) @ map href (requested E ?next opts (Some ?rs))))) None) \<or>
            (\<exists>c. e = ResolverError c (Some (href (last (requested E ?next opts (Some ?rs))))))"
        using True Inr "1.prems" d by (intro "1.IH"[of ?u ?rs r]) auto
      then show ?thesis
        unfolding r by (simp add: or_empty_def requested_nonempty)
    next
      case False
      then have r: "requested E u0 opts r0 = [?u]"
        using Inr by (subst requested.simps) (auto simp add: Let_def)
      show ?thesis
        using Inr False "1.prems" unfolding r
        by (subst (asm) download.simps) (auto simp add: Let_def caught_def split: if_splits)
    qed
  qed
qed

text \<open>
  C3. The too-many-redirects branch builds its \<open>ResolverError\<close> with one argument: with
  \<open>redirects = 0\<close>, a first response that redirects makes \<open>read\<close> reject with a
  \<open>ResolverError\<close> that has no source, where every other failure carries the URL.
\<close>

theorem read_overflow_no_source:
  "read chain_env (http_resolver\<lparr>redirects := 0\<rparr>) (file_at ''a'') =
     Inl (ResolverError (OnoProps 302 (too_many_redirects [''a''])) None)"
  by (simp add: chain_defs read_def read_url_def file_at_def download.simps)

text \<open>
  C9, as stated, fails for a location header with an empty value: the response has
  status 302 and a location header and the chain is within the limit, yet the download
  issues no second request and fails, where a download at the resolved URL would end in
  the too-many-redirects branch.
\<close>

theorem follow_location_counterexample:
  "get chain_env (chain_parse (UrlStr ''e'')) (http_resolver\<lparr>redirects := 1\<rparr>) =
     Inr \<lparr> statusCode = 302, res_headers = [(''location'', [])], body = Some [] \<rparr> \<and>
   download chain_env (UrlStr ''e'') (http_resolver\<lparr>redirects := 1\<rparr>) None =
     Inl (ResolverError (OnoWrap (OnoProps 302 ''HTTP 302 redirect with no location header'')
            ''Error downloading e'') (Some ''e'')) \<and>
   download chain_env (UrlStr (chain_resolve (chain_parse (UrlStr ''e'')) []))
       (http_resolver\<lparr>redirects := 1\<rparr>) (Some [''e'']) =
     Inl (ResolverError (OnoProps 302 (too_many_redirects [''e'', ''e''])) None) \<and>
   requested chain_env (UrlStr ''e'') (http_resolver\<lparr>redirects := 1\<rparr>) None =
     [chain_parse (UrlStr ''e'')]"
proof (intro conjI)
  show "get chain_env (chain_parse (UrlStr ''e'')) (http_resolver\<lparr>redirects := 1\<rparr>) =
     Inr \<lparr> statusCode = 302, res_headers = [(''location'', [])], body = Some [] \<rparr>"
    by (simp add: chain_defs)
  show "download chain_env (UrlStr ''e'') (http_resolver\<lparr>redirects := 1\<rparr>) None =
     Inl (ResolverError (OnoWrap (OnoProps 302 ''HTTP 302 redirect with no location header'')
            ''Error downloading e'') (Some ''e''))"
    by (simp add: chain_defs download.simps decimal.simps digit_def)
  show "download chain_env (UrlStr (chain_resolve (chain_parse (UrlStr ''e'')) []))
       (http_resolver\<lparr>redirects := 1\<rparr>) (Some [''e'']) =
     Inl (ResolverError (OnoProps 302 (too_many_redirects [''e'', ''e''])) None)"
    by (simp add: chain_defs download.simps)
  show "requested chain_env (UrlStr ''e'') (http_resolver\<lparr>redirects := 1\<rparr>) None =
     [chain_parse (UrlStr ''e'')]"
    by (simp add: chain_defs requested.simps)
qed

text \<open>
  C9, amended. For every response with a status from 300 to 399, a location header with
  a non-empty value and a chain still within the limit, the download is the download at
  the location resolved against the current URL, with the current URL added to the
  chain; the next request goes to that URL.
\<close>

theorem download_follow:
  "get E (url_parse E u0) opts = Inr res \<Longrightarrow>
   300 \<le> statusCode res \<Longrightarrow> statusCode res < 400 \<Longrightarrow>
   int (length (or_empty r0) + 1) \<le> redirects opts \<Longrightarrow>
   map_of (res_headers res) ''location'' = Some loc \<Longrightarrow> loc \<noteq> [] \<Longrightarrow>
   download E u0 opts r0 =
     download E (UrlStr (url_resolve E (url_parse E u0) loc)) opts
       (Some (or_empty r0 @ [href (url_parse E u0)])) \<and>
   requested E u0 opts r0 =
     url_parse E u0 # requested E (UrlStr (url_resolve E (url_parse E u0) loc)) opts
       (Some (or_empty r0 @ [href (url_parse E u0)]))"
  by (subst download.simps, subst requested.simps) (simp add: Let_def)

theorem download_follow_witness:
  "download chain_env (UrlStr ''c'') http_resolver (Some [''a'', ''b'']) =
     download chain_env (UrlStr ''d'') http_resolver (Some [''a'', ''b'', ''c'']) \<and>
   requested chain_env (UrlStr ''c'') http_resolver (Some [''a'', ''b'']) =
     chain_parse (UrlStr ''c'') #
     requested chain_env (UrlStr ''d'') http_resolver (Some [''a'', ''b'', ''c''])"
proof -
  have g: "get chain_env (url_parse chain_env (UrlStr ''c'')) http_resolver =
      Inr \<lparr> statusCode = 302, res_headers = [(''location'', ''d'')], body = Some [] \<rparr>"
    by (simp add: chain_defs)
  have "download chain_env (UrlStr ''c'') http_resolver (Some [''a'', ''b'']) =
     download chain_env
       (UrlStr (url_resolve chain_env (url_parse chain_env (UrlStr ''c'')) ''d'')) http_resolver
       (Some (or_empty (Some [''a'', ''b'']) @ [href (url_parse chain_env (UrlStr ''c''))])) \<and>
   requested chain_env (UrlStr ''c'') http_resolver (Some [''a'', ''b'']) =
     url_parse chain_env (UrlStr ''c'') #
     requested chain_env
       (UrlStr (url_resolve chain_env (url_parse chain_env (UrlStr ''c'')) ''d'')) http_resolver
       (Some (or_empty (Some [''a'', ''b'']) @ [href (url_parse chain_env (UrlStr ''c''))]))"
    by (rule download_follow [OF g]) (simp_all add: chain_defs)
  then show ?thesis by (simp add: chain_defs)
qed


section \<open>Properties of the YAML parser\<close>













lemma toString_ill_formed:
  "toString [0x61, 0xFF, 0xC3, 0x28, 0xE2, 0x82] =
   chars [0x61] @ replacement @ replacement @ chars [0x28] @ replacement"
  by (simp add: toString_def chars_def replacement_def)

text \<open>
  C4, as stated, fails: for a zero-byte \<open>.yaml\<close> file under \<open>allowEmpty = true\<close> the
  parser returns \<open>undefined\<close>, the value \<open>load\<close> of \<open>js-yaml\<close> yields for a text that
  holds no document, and not the JSON value \<open>null\<close>.
\<close>

theorem parse_empty_counterexample:
  "run_parser sample_platform (yaml_parser\<lparr>allowEmpty := True\<rparr>)
     \<lparr> url = ''empty.yaml'', extension = ''.yaml'', data = JBuffer [] \<rparr> = Inr JUndefined \<and>
   JUndefined \<noteq> JNull"
  by (simp add: run_parser_def parse_def sample_platform_def node_platform_def toString_def
      sample_load_def)

text \<open>
  C4, amended. For every zero-byte input, with a loader that yields \<open>undefined\<close> for the
  empty text: under \<open>allowEmpty = true\<close> the YAML parser returns \<open>undefined\<close>, and under
  \<open>allowEmpty = false\<close> the parse fails with \<open>ParserError("empty")\<close>.
\<close>

theorem parse_zero_byte:
  "zero_byte (data file) \<Longrightarrow> load [] JSON_SCHEMA = Inr JUndefined \<Longrightarrow>
   run_parser (node_platform load) (this\<lparr>allowEmpty := True\<rparr>) file = Inr JUndefined \<and>
   run_parser (node_platform load) (this\<lparr>allowEmpty := False\<rparr>) file =
     Inl (ParserError ''empty'' (url file))"
  by (auto simp: run_parser_def parse_def node_platform_def toString_def zero_byte_def)

theorem parse_zero_byte_witness:
  "run_parser sample_platform (yaml_parser\<lparr>allowEmpty := True\<rparr>)
     \<lparr> url = ''empty.yaml'', extension = ''.yaml'', data = JBuffer [] \<rparr> = Inr JUndefined \<and>
   run_parser sample_platform (yaml_parser\<lparr>allowEmpty := False\<rparr>)
     \<lparr> url = ''empty.yaml'', extension = ''.yaml'', data = JBuffer [] \<rparr> =
     Inl (ParserError ''empty'' ''empty.yaml'')"
  using parse_zero_byte [of "\<lparr> url = ''empty.yaml'', extension = ''.yaml'', data = JBuffer [] \<rparr>"
      sample_load yaml_parser]
  by (simp add: sample_platform_def sample_load_def zero_byte_def)




text \<open>
  C6. For every string or \<open>Buffer\<close> whose text the loader rejects, \<open>parse\<close> fails with
  a \<open>ParserError\<close> built from the message of the loader's exception and the URL of the
  file, and with no other error.
\<close>

theorem parse_text_error:
  "text_of P (data file) = Some s \<Longrightarrow> yaml_load P s JSON_SCHEMA = Inl m \<Longrightarrow>
   parse P this file = Inl (ParserError m (url file))"
  by (auto simp: parse_def text_of_def split: js_value.splits)

theorem parse_text_error_witness:
  "parse sample_platform yaml_parser
     \<lparr> url = ''bad.json'', extension = ''.json'', data = JString ''{'' \<rparr> =
   Inl (ParserError ''end of the stream or a document separator is expected'' ''bad.json'')"
proof -
  have t: "text_of sample_platform
      (data \<lparr> url = ''bad.json'', extension = ''.json'', data = JString ''{'' \<rparr>) = Some ''{''"
    by (simp add: text_of_def)
  have l: "yaml_load sample_platform ''{'' JSON_SCHEMA =
      Inl ''end of the stream or a document separator is expected''"
    by (simp add: sample_platform_def node_platform_def sample_load_def)
  from parse_text_error [OF t l, of yaml_parser] show ?thesis by simp
qed

text \<open>
  C10. For every file whose data is neither a \<open>Buffer\<close> nor a string, \<open>parse\<close>
  returns the data unchanged and does not fail.
\<close>

theorem parse_identity:
  "(\<forall>b. data file \<noteq> JBuffer b) \<Longrightarrow> (\<forall>s. data file \<noteq> JString s) \<Longrightarrow>
   parse P this file = Inr (data file)"
  by (cases "data file") (auto simp: parse_def)

theorem parse_identity_witness:
  "parse sample_platform yaml_parser
     \<lparr> url = ''o.yaml'', extension = ''.yaml'', data = JObject [(''type'', JNull)] \<rparr> =
   Inr (JObject [(''type'', JNull)])"
  using parse_identity [of "\<lparr> url = ''o.yaml'', extension = ''.yaml'',
      data = JObject [(''type'', JNull)] \<rparr>" sample_platform yaml_parser]
  by simp

section \<open>Properties of the dereferencer\<close>

lemmas deref_defs = refparser_dereference_def refparser_parse_def empty_catalog_def
  sample_resolve_def strip_hash_def get_hash_def target_def pointer_tokens_def ref_of_def
  deref_value.simps resolve_def step_def render_def start_def keep_def Let_def

text \<open>
  C7. For the two documents that refer to each other: after \<open>parse\<close> the catalog has
  \<open>circular = false\<close> and no \<open>circularRefs\<close>; after \<open>dereference\<close>, under each setting of
  the \<open>circular\<close> option and with any fuel of three or more, the catalog has
  \<open>circular = true\<close> and \<open>circularRefs\<close> is the one pointer \<open>#/foo/foo\<close>.
\<close>

theorem circular_external_direct:
  "circular (snd (refparser_parse circular_files ''/a.yaml'')) = False \<and>
   circularRefs (snd (refparser_parse circular_files ''/a.yaml'')) = [] \<and>
   flags (refparser_dereference (Suc (Suc (Suc k))) sample_resolve opt circular_files ''/a.yaml'') =
     Some (True, [''#/foo/foo''])"
proof (intro conjI)
  show "circular (snd (refparser_parse circular_files ''/a.yaml'')) = False"
    by (simp add: deref_defs circular_files_def)
  show "circularRefs (snd (refparser_parse circular_files ''/a.yaml'')) = []"
    by (simp add: deref_defs circular_files_def)
  show "flags (refparser_dereference (Suc (Suc (Suc k))) sample_resolve opt circular_files
      ''/a.yaml'') = Some (True, [''#/foo/foo''])"
    by (cases opt) (simp_all add: deref_defs flags_def circular_files_def)
qed
























end
